theory Spec2Isabelle
  imports Complex_Main "HOL-Library.Log_Nat"
begin

section \<open>JavaScript values read by the component\<close>

text \<open>
  The only operation of \<^verbatim>\<open>HeatmapStats.tsx\<close> that can raise is a member access on
  \<^verbatim>\<open>undefined\<close>, a TypeError.
\<close>

datatype error = TypeError

text \<open>
  A JavaScript number as far as the width expression needs it: the three non-finite
  values and the finite ones. Finite values are exact reals here, so \<^verbatim>\<open>Math.log10\<close>
  is the exact base-10 logarithm and not its double approximation.
\<close>

datatype jsnum = NaN | NegInfinity | PosInfinity | Finite real

fun js_add :: "jsnum \<Rightarrow> jsnum \<Rightarrow> jsnum" where
  "js_add NaN _ = NaN"
| "js_add _ NaN = NaN"
| "js_add NegInfinity PosInfinity = NaN"
| "js_add PosInfinity NegInfinity = NaN"
| "js_add NegInfinity _ = NegInfinity"
| "js_add _ NegInfinity = NegInfinity"
| "js_add PosInfinity _ = PosInfinity"
| "js_add _ PosInfinity = PosInfinity"
| "js_add (Finite a) (Finite b) = Finite (a + b)"

definition js_sign :: "jsnum \<Rightarrow> int" where
  "js_sign x = (case x of NaN \<Rightarrow> 0 | NegInfinity \<Rightarrow> - 1 | PosInfinity \<Rightarrow> 1
                | Finite r \<Rightarrow> (if r < 0 then - 1 else if r = 0 then 0 else 1))"

fun js_mul :: "jsnum \<Rightarrow> jsnum \<Rightarrow> jsnum" where
  "js_mul NaN _ = NaN"
| "js_mul _ NaN = NaN"
| "js_mul (Finite a) (Finite b) = Finite (a * b)"
| "js_mul x y =
     (if js_sign x * js_sign y = 0 then NaN
      else if js_sign x * js_sign y < 0 then NegInfinity else PosInfinity)"

fun Math_log10 :: "jsnum \<Rightarrow> jsnum" where
  "Math_log10 NaN = NaN"
| "Math_log10 NegInfinity = NaN"
| "Math_log10 PosInfinity = PosInfinity"
| "Math_log10 (Finite r) =
     (if r < 0 then NaN else if r = 0 then NegInfinity else Finite (log 10 r))"

fun Math_floor :: "jsnum \<Rightarrow> jsnum" where
  "Math_floor (Finite r) = Finite (of_int \<lfloor>r\<rfloor>)"
| "Math_floor x = x"

text \<open>
  Decimal rendering of an integral number, as React prints a number child. The counts
  are integers; JavaScript prints an integer below \<open>10\<^sup>2\<^sup>1\<close> in plain digits.
\<close>

definition digit_char :: "nat \<Rightarrow> char" where
  "digit_char d = ''0123456789'' ! (d mod 10)"

fun decimal_of_nat :: "nat \<Rightarrow> string" where
  "decimal_of_nat n = (if 10 \<le> n then decimal_of_nat (n div 10) else []) @ [digit_char n]"

declare decimal_of_nat.simps [simp del]

definition decimal_of_int :: "int \<Rightarrow> string" where
  "decimal_of_int i = (if i < 0 then ''-'' @ decimal_of_nat (nat (- i)) else decimal_of_nat (nat i))"

section \<open>The state read from heatmapLogic\<close>

text \<open>
  \<^verbatim>\<open>actionStep\<close> is optional and so are its fields \<^verbatim>\<open>text\<close> and \<^verbatim>\<open>tag_name\<close>:
  \<open>None\<close> is an absent (undefined or null) field. The DOM element reference is opaque,
  the type variable \<open>'e\<close>.
\<close>

record ActionStepType =
  "text" :: "string option"
  tag_name :: "string option"

record 'e CountedElement =
  element :: 'e
  count :: int
  actionStep :: "ActionStepType option"

record 'e heatmapValues =
  countedElements :: "'e CountedElement list"
  clickCount :: int
  heatmapEnabled :: bool
  heatmapLoading :: bool

section \<open>The actions of elementsLogic\<close>

datatype 'e action = setSelectedElement 'e | setHighlightElement "'e option"

section \<open>The rendered tree\<close>

datatype css = CssNum jsnum | CssStr string

type_synonym style = "(string \<times> css) list"

text \<open>A function passed as a prop is the imported binding it names.\<close>

datatype fn_ref = Imported string

record DateFilterProps =
  defaultValue :: string
  updatePath :: bool
  getPopupContainer :: fn_ref

text \<open>
  An event handler of a row is the list of dispatches its body makes when it runs: each
  handler of the source is an arrow function whose body is one call of an action.
\<close>

record 'e ListItemProps =
  onClick :: "'e action list"
  onMouseEnter :: "'e action list"
  onMouseLeave :: "'e action list"
  itemStyle :: style

text \<open>
  One constructor per kind of JSX node of the source: literal text, a number child, the
  \<^verbatim>\<open>null\<close> child, a host element (\<^verbatim>\<open>div\<close>, \<^verbatim>\<open>span\<close>, \<^verbatim>\<open>code\<close>, \<^verbatim>\<open>em\<close>) with its
  style and children, a fragment, and the components \<^verbatim>\<open>DateFilter\<close>, \<^verbatim>\<open>List\<close>
  (with its \<^verbatim>\<open>itemLayout\<close> and its rendered items), \<^verbatim>\<open>List.Item\<close>,
  \<^verbatim>\<open>List.Item.Meta\<close> (with its \<^verbatim>\<open>title\<close>) and \<^verbatim>\<open>Space\<close>.
\<close>

datatype 'e vnode =
    Text string
  | Num int
  | Null
  | Elem string style "'e vnode list"
  | Fragment "'e vnode list"
  | DateFilter DateFilterProps
  | AntList string "'e vnode list"
  | ListItem "'e ListItemProps" "'e vnode list"
  | ListItemMeta "'e vnode"
  | Space "'e vnode list"

section \<open>The component\<close>

text \<open>
  \<^verbatim>\<open>actionStep?.text\<close> and \<^verbatim>\<open>actionStep?.tag_name\<close>: optional chaining gives undefined
  on an absent \<^verbatim>\<open>actionStep\<close>. \<^verbatim>\<open>actionStep.tag_name\<close> (line 52) is a plain member
  access, which raises on an absent \<^verbatim>\<open>actionStep\<close>.
\<close>

definition chain_text :: "ActionStepType option \<Rightarrow> string option" where
  "chain_text a = (case a of None \<Rightarrow> None | Some st \<Rightarrow> text st)"

definition chain_tag_name :: "ActionStepType option \<Rightarrow> string option" where
  "chain_tag_name a = (case a of None \<Rightarrow> None | Some st \<Rightarrow> tag_name st)"

definition member_tag_name :: "ActionStepType option \<Rightarrow> error + string option" where
  "member_tag_name a = (case a of None \<Rightarrow> Inl TypeError | Some st \<Rightarrow> Inr (tag_name st))"

text \<open>Truthiness of an optional string: undefined and the empty string are falsy.\<close>

definition truthy :: "string option \<Rightarrow> bool" where
  "truthy v = (case v of None \<Rightarrow> False | Some s \<Rightarrow> s \<noteq> [])"

text \<open>A string expression as a JSX child: undefined renders nothing.\<close>

definition string_child :: "string option \<Rightarrow> 'e vnode list" where
  "string_child v = (case v of None \<Rightarrow> [] | Some s \<Rightarrow> [Text s])"

text \<open>Lines 50 to 55: the content of a row.\<close>

definition rowContent :: "ActionStepType option \<Rightarrow> error + 'e vnode list" where
  "rowContent a =
     (if truthy (chain_text a) then Inr (string_child (chain_text a))
      else if truthy (chain_tag_name a) then
        (case member_tag_name a of
           Inl e \<Rightarrow> Inl e
         | Inr t \<Rightarrow> Inr [Elem ''code'' [] ([Text ''<''] @ string_child t @ [Text ''>''])])
      else Inr [Elem ''em'' [] [Text ''Element'']])"

text \<open>Line 43: the width of the rank label, from the length of \<^verbatim>\<open>countedElements\<close>.\<close>

definition labelWidth :: "nat \<Rightarrow> jsnum" where
  "labelWidth n =
     js_add (js_mul (Math_floor (js_add (Math_log10 (Finite (real n))) (Finite 1))) (Finite 12))
       (Finite 6)"

text \<open>Lines 30 to 61: \<^verbatim>\<open>renderItem\<close>, closed over the values of the component.\<close>

definition renderItem ::
  "'e heatmapValues \<Rightarrow> 'e CountedElement \<Rightarrow> nat \<Rightarrow> error + 'e vnode" where
  "renderItem s ce index =
     (case rowContent (actionStep ce) of
        Inl e \<Rightarrow> Inl e
      | Inr content \<Rightarrow>
          Inr (ListItem
            \<lparr>onClick = [setSelectedElement (element ce)],
             onMouseEnter = [setHighlightElement (Some (element ce))],
             onMouseLeave = [setHighlightElement None],
             itemStyle = [(''cursor'', CssStr ''pointer'')]\<rparr>
            [ListItemMeta
               (Space
                 ([Elem ''span''
                     [(''display'', CssStr ''inline-block''),
                      (''width'', CssNum (labelWidth (length (countedElements s)))),
                      (''textAlign'', CssStr ''right''),
                      (''marginRight'', CssNum (Finite 4))]
                     [Num (int (index + 1)), Text ''.'']]
                  @ content)),
             Elem ''div'' [] [Num (count ce), Text '' clicks'']]))"

text \<open>
  The \<^verbatim>\<open>List\<close> of antd calls \<^verbatim>\<open>renderItem(item, index)\<close> for each item of
  \<^verbatim>\<open>dataSource\<close>, in order, with indices from 0 (no pagination is configured). An
  exception of one call ends the rendering.
\<close>

fun renderItems :: "('a \<Rightarrow> nat \<Rightarrow> error + 'b) \<Rightarrow> 'a list \<Rightarrow> nat \<Rightarrow> error + 'b list" where
  "renderItems f [] i = Inr []"
| "renderItems f (x # xs) i =
     (case f x i of
        Inl e \<Rightarrow> Inl e
      | Inr r \<Rightarrow> (case renderItems f xs (Suc i) of Inl e \<Rightarrow> Inl e | Inr rs \<Rightarrow> Inr (r # rs)))"

text \<open>Lines 9 to 67.\<close>

definition HeatmapStats :: "'e heatmapValues \<Rightarrow> error + 'e vnode" where
  "HeatmapStats s =
     (if heatmapEnabled s \<and> \<not> heatmapLoading s then
        (case renderItems (renderItem s) (countedElements s) 0 of
           Inl e \<Rightarrow> Inl e
         | Inr items \<Rightarrow>
             Inr (Elem ''div'' []
               [Fragment
                  [Elem ''div'' [(''marginTop'', CssNum (Finite 0)), (''marginBottom'', CssNum (Finite 10))]
                     [DateFilter
                        \<lparr>defaultValue = ''Last 7 days'',
                         updatePath = False,
                         getPopupContainer = Imported ''getShadowRootPopupContainer''\<rparr>],
                   Elem ''div'' [(''marginTop'', CssNum (Finite 20)), (''marginBottom'', CssNum (Finite 10))]
                     [Text ''Found: '', Num (int (length (countedElements s))),
                      Text '' elements / '', Num (clickCount s), Text '' clicks!''],
                   AntList ''horizontal'' items]]))
      else Inr (Elem ''div'' [] [Null]))"

section \<open>Reading the rendered tree\<close>

text \<open>All nodes of a tree, the root first, in document order.\<close>

fun nodes :: "'e vnode \<Rightarrow> 'e vnode list" where
  "nodes (Elem t st cs) = Elem t st cs # concat (map nodes cs)"
| "nodes (Fragment cs) = Fragment cs # concat (map nodes cs)"
| "nodes (AntList l cs) = AntList l cs # concat (map nodes cs)"
| "nodes (ListItem p cs) = ListItem p cs # concat (map nodes cs)"
| "nodes (ListItemMeta t) = ListItemMeta t # nodes t"
| "nodes (Space cs) = Space cs # concat (map nodes cs)"
| "nodes v = [v]"

text \<open>
  The text a node shows: a number child in decimal, \<^verbatim>\<open>null\<close> as nothing. The text
  inside the \<^verbatim>\<open>DateFilter\<close> is that widget's own and is left out.
\<close>

fun textContent :: "'e vnode \<Rightarrow> string" where
  "textContent (Text s) = s"
| "textContent (Num n) = decimal_of_int n"
| "textContent Null = []"
| "textContent (Elem t st cs) = concat (map textContent cs)"
| "textContent (Fragment cs) = concat (map textContent cs)"
| "textContent (DateFilter p) = []"
| "textContent (AntList l cs) = concat (map textContent cs)"
| "textContent (ListItem p cs) = concat (map textContent cs)"
| "textContent (ListItemMeta t) = textContent t"
| "textContent (Space cs) = concat (map textContent cs)"

text \<open>
  What React puts under a host element: a \<^verbatim>\<open>null\<close> child renders nothing and a
  fragment stands for its own children.
\<close>

fun flatten :: "'e vnode \<Rightarrow> 'e vnode list" where
  "flatten Null = []"
| "flatten (Fragment cs) = concat (map flatten cs)"
| "flatten v = [v]"

definition rendered_children :: "'e vnode \<Rightarrow> 'e vnode list" where
  "rendered_children v = (case v of Elem t st cs \<Rightarrow> concat (map flatten cs) | _ \<Rightarrow> [])"

fun is_ListItem :: "'e vnode \<Rightarrow> bool" where
  "is_ListItem (ListItem p cs) = True"
| "is_ListItem _ = False"

fun is_AntList :: "'e vnode \<Rightarrow> bool" where
  "is_AntList (AntList l cs) = True"
| "is_AntList _ = False"

fun is_DateFilter :: "'e vnode \<Rightarrow> bool" where
  "is_DateFilter (DateFilter p) = True"
| "is_DateFilter _ = False"

text \<open>The rows of a tree: its \<^verbatim>\<open>List.Item\<close> nodes, in document order.\<close>

definition rows_of :: "'e vnode \<Rightarrow> 'e vnode list" where
  "rows_of v = filter is_ListItem (nodes v)"

text \<open>
  The parts of a row: the first child of the title's \<^verbatim>\<open>Space\<close> is the rank label,
  the children after it are the row content, and the node after the \<^verbatim>\<open>List.Item.Meta\<close>
  is the trailing text.
\<close>

fun rank_label :: "'e vnode \<Rightarrow> 'e vnode option" where
  "rank_label (ListItem p (ListItemMeta (Space (l # content)) # rest)) = Some l"
| "rank_label _ = None"

fun row_content :: "'e vnode \<Rightarrow> 'e vnode list option" where
  "row_content (ListItem p (ListItemMeta (Space (l # content)) # rest)) = Some content"
| "row_content _ = None"

fun row_trailing :: "'e vnode \<Rightarrow> 'e vnode list" where
  "row_trailing (ListItem p (m # rest)) = rest"
| "row_trailing _ = []"

fun style_of :: "'e vnode \<Rightarrow> style" where
  "style_of (Elem t st cs) = st"
| "style_of (ListItem p cs) = itemStyle p"
| "style_of _ = []"

fun children_of :: "'e vnode \<Rightarrow> 'e vnode list" where
  "children_of (Elem t st cs) = cs"
| "children_of (Fragment cs) = cs"
| "children_of (AntList l cs) = cs"
| "children_of (ListItem p cs) = cs"
| "children_of (ListItemMeta t) = [t]"
| "children_of (Space cs) = cs"
| "children_of _ = []"

definition width_of :: "'e vnode \<Rightarrow> css option" where
  "width_of v = map_of (style_of v) ''width''"

section \<open>Pointer events\<close>

text \<open>
  React runs the handler registered for the event on the node and nothing else. A row
  registers \<^verbatim>\<open>onClick\<close>, \<^verbatim>\<open>onMouseEnter\<close> and \<^verbatim>\<open>onMouseLeave\<close>; no other node of the
  component registers a handler.
\<close>

datatype pointer_event =
  click | dblclick | contextmenu | mousedown | mouseup | mousemove | mouseenter | mouseleave
  | mouseover | mouseout

fun fire :: "'e vnode \<Rightarrow> pointer_event \<Rightarrow> 'e action list" where
  "fire (ListItem p cs) click = onClick p"
| "fire (ListItem p cs) mouseenter = onMouseEnter p"
| "fire (ListItem p cs) mouseleave = onMouseLeave p"
| "fire _ _ = []"

text \<open>The rows the component renders from the values \<open>s\<close>.\<close>

definition rendered_rows :: "'e heatmapValues \<Rightarrow> 'e vnode list" where
  "rendered_rows s = (case HeatmapStats s of Inl e \<Rightarrow> [] | Inr v \<Rightarrow> rows_of v)"

section \<open>Example states\<close>

text \<open>
  Three counted elements, with DOM elements 7, 8 and 9: one with a text, one with a tag
  name only, one with no action step.
\<close>

definition example_elements :: "nat CountedElement list" where
  "example_elements =
     [\<lparr>element = 7, count = 12,
       actionStep = Some \<lparr>text = Some ''Buy now'', tag_name = Some ''a''\<rparr>\<rparr>,
      \<lparr>element = 8, count = 3,
       actionStep = Some \<lparr>text = None, tag_name = Some ''button''\<rparr>\<rparr>,
      \<lparr>element = 9, count = 1, actionStep = None\<rparr>]"

definition example_visible :: "nat heatmapValues" where
  "example_visible =
     \<lparr>countedElements = example_elements, clickCount = 16,
      heatmapEnabled = True, heatmapLoading = False\<rparr>"

definition example_loading :: "nat heatmapValues" where
  "example_loading =
     \<lparr>countedElements = example_elements, clickCount = 16,
      heatmapEnabled = True, heatmapLoading = True\<rparr>"


text \<open>A visible state with no counted element.\<close>

definition example_no_elements :: "nat heatmapValues" where
  "example_no_elements =
     \<lparr>countedElements = [], clickCount = 0, heatmapEnabled = True, heatmapLoading = False\<rparr>"

text \<open>
  A visible state whose elements miss fields: no action step, an action step with
  neither text nor tag name, an action step with a tag name only.
\<close>

definition example_fallbacks :: "nat heatmapValues" where
  "example_fallbacks =
     \<lparr>countedElements =
        [\<lparr>element = 4, count = 5, actionStep = None\<rparr>,
         \<lparr>element = 5, count = 2, actionStep = Some \<lparr>text = None, tag_name = None\<rparr>\<rparr>,
         \<lparr>element = 6, count = 1,
          actionStep = Some \<lparr>text = None, tag_name = Some ''button''\<rparr>\<rparr>],
      clickCount = 8, heatmapEnabled = True, heatmapLoading = False\<rparr>"

section \<open>The width expression\<close>

lemma floor_log10_digits: "0 < n \<Longrightarrow> \<lfloor>log 10 (real n) + 1\<rfloor> = int (floorlog 10 n)"
  by (simp add: floorlog_def)

lemma labelWidth_positive_length:
  "0 < n \<Longrightarrow> labelWidth n = Finite (of_int (\<lfloor>log 10 (real n) + 1\<rfloor> * 12 + 6))"
  by (simp add: labelWidth_def)

lemma labelWidth_zero: "labelWidth 0 = NegInfinity"
  by (simp add: labelWidth_def js_sign_def)

text \<open>
  An equation that computes the width: for a positive length the floor of the logarithm
  plus one is the number of decimal digits.
\<close>

lemma labelWidth_code [code]:
  "labelWidth n = (if n = 0 then NegInfinity else Finite (real (floorlog 10 n * 12 + 6)))"
  using labelWidth_zero labelWidth_positive_length [of n] floor_log10_digits [of n]
  by (cases "n = 0") simp_all

lemma floor_log10_ge_1: "0 < n \<Longrightarrow> 1 \<le> \<lfloor>log 10 (real n) + 1\<rfloor>"
proof -
  assume "0 < n"
  then have "0 \<le> log 10 (real n)" by simp
  then show ?thesis by linarith
qed

section \<open>Decimal rendering\<close>

lemma decimal_of_int_nat: "decimal_of_int (int n) = decimal_of_nat n"
  by (simp add: decimal_of_int_def)

lemma decimal_of_nat_digit: "n < 10 \<Longrightarrow> decimal_of_nat n = [digit_char n]"
  by (simp add: decimal_of_nat.simps [of n])

section \<open>Rendering never raises\<close>

lemma rowContent_Inr:
  "rowContent a = Inr (if truthy (chain_text a) then string_child (chain_text a)
     else if truthy (chain_tag_name a)
       then [Elem ''code'' [] ([Text ''<''] @ string_child (chain_tag_name a) @ [Text ''>''])]
     else [Elem ''em'' [] [Text ''Element'']])"
  by (cases a)
    (simp_all add: rowContent_def chain_text_def chain_tag_name_def member_tag_name_def truthy_def)

lemma renderItem_total: "\<exists>r. renderItem s ce i = Inr r"
  by (simp add: renderItem_def rowContent_Inr)

lemma renderItems_total:
  assumes "\<And>x j. \<exists>r. f x j = Inr r"
  shows "\<exists>rs. renderItems f xs i = Inr rs \<and> length rs = length xs
           \<and> (\<forall>k<length xs. f (xs ! k) (i + k) = Inr (rs ! k))"
proof (induction xs arbitrary: i)
  case Nil
  show ?case by simp
next
  case (Cons x xs)
  obtain r where r: "f x i = Inr r" using assms by blast
  obtain rs where rs: "renderItems f xs (Suc i) = Inr rs" "length rs = length xs"
    "\<forall>k<length xs. f (xs ! k) (Suc i + k) = Inr (rs ! k)"
    using Cons.IH by blast
  have "\<forall>k<length (x # xs). f ((x # xs) ! k) (i + k) = Inr ((r # rs) ! k)"
  proof (intro allI impI)
    fix k assume "k < length (x # xs)"
    then show "f ((x # xs) ! k) (i + k) = Inr ((r # rs) ! k)"
      using r rs(3) by (cases k) simp_all
  qed
  then show ?case using r rs(1,2) by simp
qed

lemma renderItems_renderItem:
  "\<exists>items. renderItems (renderItem s) (countedElements s) 0 = Inr items
     \<and> length items = length (countedElements s)
     \<and> (\<forall>k<length (countedElements s). renderItem s (countedElements s ! k) k = Inr (items ! k))"
  using renderItems_total [of "renderItem s" "countedElements s" 0] renderItem_total
  by fastforce

section \<open>The rows of the rendered tree\<close>

lemma renderItem_rows: "renderItem s ce i = Inr r \<Longrightarrow> filter is_ListItem (nodes r) = [r]"
  by (auto simp: renderItem_def rowContent_Inr string_child_def split: if_splits option.splits)

lemma filter_concat_nodes:
  "(\<And>x. x \<in> set xs \<Longrightarrow> filter P (nodes x) = [x]) \<Longrightarrow> filter P (concat (map nodes xs)) = xs"
  by (induction xs) simp_all

lemma rendered_rows_hidden: "\<not> (heatmapEnabled s \<and> \<not> heatmapLoading s) \<Longrightarrow> rendered_rows s = []"
  by (auto simp: rendered_rows_def HeatmapStats_def rows_of_def)

lemma rendered_rows_visible:
  assumes "heatmapEnabled s" "\<not> heatmapLoading s"
  shows "length (rendered_rows s) = length (countedElements s)
      \<and> (\<forall>k<length (countedElements s).
            renderItem s (countedElements s ! k) k = Inr (rendered_rows s ! k))"
proof -
  obtain items where it: "renderItems (renderItem s) (countedElements s) 0 = Inr items"
     "length items = length (countedElements s)"
     "\<forall>k<length (countedElements s). renderItem s (countedElements s ! k) k = Inr (items ! k)"
    using renderItems_renderItem by blast
  have "\<And>x. x \<in> set items \<Longrightarrow> filter is_ListItem (nodes x) = [x]"
  proof -
    fix x assume "x \<in> set items"
    then obtain k where "k < length items" "items ! k = x" by (auto simp: in_set_conv_nth)
    then show "filter is_ListItem (nodes x) = [x]"
      using it(2,3) renderItem_rows by metis
  qed
  then have "filter is_ListItem (concat (map nodes items)) = items"
    by (rule filter_concat_nodes)
  then have "rendered_rows s = items"
    using it(1) assms by (simp add: rendered_rows_def HeatmapStats_def rows_of_def)
  then show ?thesis using it(2,3) by simp
qed

lemma rendered_row_nth:
  assumes "heatmapEnabled s" "\<not> heatmapLoading s" "k < length (countedElements s)"
  shows "renderItem s (countedElements s ! k) k = Inr (rendered_rows s ! k)"
  using rendered_rows_visible [OF assms(1,2)] assms(3) by blast

lemma rendered_row_cases:
  assumes "row \<in> set (rendered_rows s)"
  shows "heatmapEnabled s \<and> \<not> heatmapLoading s
     \<and> (\<exists>k<length (countedElements s). renderItem s (countedElements s ! k) k = Inr row)"
proof -
  have vis: "heatmapEnabled s \<and> \<not> heatmapLoading s"
  proof (rule ccontr)
    assume "\<not> (heatmapEnabled s \<and> \<not> heatmapLoading s)"
    then have "rendered_rows s = []" by (rule rendered_rows_hidden)
    then show False using assms by simp
  qed
  then have rv: "length (rendered_rows s) = length (countedElements s)"
      "\<forall>k<length (countedElements s).
            renderItem s (countedElements s ! k) k = Inr (rendered_rows s ! k)"
    using rendered_rows_visible [of s] by auto
  obtain k where "k < length (rendered_rows s)" "rendered_rows s ! k = row"
    using assms by (auto simp: in_set_conv_nth)
  then show ?thesis using vis rv by auto
qed

lemma example_visible_rows:
  "heatmapEnabled example_visible" "\<not> heatmapLoading example_visible"
  "length (countedElements example_visible) = 3"
  by (simp_all add: example_visible_def example_elements_def)

section \<open>The parts of a row\<close>

lemma renderItem_label:
  assumes "renderItem s ce i = Inr r"
  shows "\<exists>l. rank_label r = Some l
           \<and> children_of l = [Num (int (i + 1)), Text ''.'']
           \<and> textContent l = decimal_of_nat (i + 1) @ ''.''
           \<and> width_of l = Some (CssNum (labelWidth (length (countedElements s))))"
proof -
  have "decimal_of_int (1 + int i) = decimal_of_nat (Suc i)"
    using decimal_of_int_nat [of "Suc i"] by (simp add: add.commute)
  then show ?thesis
    using assms by (auto simp: renderItem_def rowContent_Inr width_of_def)
qed

lemma renderItem_content:
  assumes "renderItem s ce i = Inr r"
  shows "row_content r =
     Some (case chain_text (actionStep ce) of
             Some (c # cs) \<Rightarrow> [Text (c # cs)]
           | _ \<Rightarrow>
             (case chain_tag_name (actionStep ce) of
                Some (d # ds) \<Rightarrow> [Elem ''code'' [] [Text ''<'', Text (d # ds), Text ''>'']]
              | _ \<Rightarrow> [Elem ''em'' [] [Text ''Element'']]))"
  using assms
  by (auto simp: renderItem_def rowContent_Inr truthy_def string_child_def
      split: option.splits list.splits)

lemma renderItem_fire:
  assumes "renderItem s ce i = Inr r"
  shows "fire r click = [setSelectedElement (element ce)]"
    and "fire r mouseenter = [setHighlightElement (Some (element ce))]"
    and "fire r mouseleave = [setHighlightElement None]"
    and "ev \<noteq> click \<Longrightarrow> ev \<noteq> mouseenter \<Longrightarrow> ev \<noteq> mouseleave \<Longrightarrow> fire r ev = []"
  using assms by (cases ev; auto simp: renderItem_def rowContent_Inr)+

section \<open>Widths in the whole tree\<close>

lemma renderItem_width_nodes:
  assumes "renderItem s ce i = Inr r" "n \<in> set (nodes r)" "width_of n \<noteq> None"
  shows "rank_label r = Some n"
  using assms
  by (auto simp: renderItem_def rowContent_Inr width_of_def string_child_def
      split: if_splits option.splits)

lemma labelWidth_finite_positive:
  assumes "0 < n"
  shows "\<exists>w. labelWidth n = Finite w \<and> 0 < w"
proof -
  have "1 \<le> \<lfloor>log 10 (real n) + 1\<rfloor>" using assms by (rule floor_log10_ge_1)
  then have "(0::int) < \<lfloor>log 10 (real n) + 1\<rfloor> * 12 + 6" by linarith
  then have "(0::real) < of_int (\<lfloor>log 10 (real n) + 1\<rfloor> * 12 + 6)"
    by (simp only: of_int_0_less_iff)
  then show ?thesis using labelWidth_positive_length [OF assms] by blast
qed

lemma width_nodes_in_items:
  assumes "HeatmapStats s = Inr v" "heatmapEnabled s" "\<not> heatmapLoading s"
    "renderItems (renderItem s) (countedElements s) 0 = Inr items"
    "n \<in> set (nodes v)" "width_of n \<noteq> None"
  shows "\<exists>r \<in> set items. n \<in> set (nodes r)"
  using assms by (auto simp: HeatmapStats_def width_of_def)

section \<open>The claims\<close>

text \<open>
  C1. Whenever \<^verbatim>\<open>heatmapEnabled\<close> is false or \<^verbatim>\<open>heatmapLoading\<close> is true, the
  component renders an empty container: the root \<^verbatim>\<open>div\<close> has no rendered child and
  shows no text, and the tree holds no date filter, no list and no row.
\<close>

theorem HeatmapStats_hidden_empty:
  assumes "heatmapEnabled s = False \<or> heatmapLoading s = True"
  shows "\<exists>v. HeatmapStats s = Inr v \<and> rendered_children v = [] \<and> textContent v = []
           \<and> filter (\<lambda>n. is_DateFilter n \<or> is_AntList n \<or> is_ListItem n) (nodes v) = []"
proof -
  have "HeatmapStats s = Inr (Elem ''div'' [] [Null])"
    using assms by (auto simp: HeatmapStats_def)
  then show ?thesis by (simp add: rendered_children_def)
qed

theorem HeatmapStats_hidden_empty_witness:
  "(heatmapEnabled example_loading = False \<or> heatmapLoading example_loading = True)
   \<and> (\<exists>v. HeatmapStats example_loading = Inr v \<and> rendered_children v = [] \<and> textContent v = []
           \<and> filter (\<lambda>n. is_DateFilter n \<or> is_AntList n \<or> is_ListItem n) (nodes v) = [])"
proof -
  have h: "heatmapEnabled example_loading = False \<or> heatmapLoading example_loading = True"
    by (simp add: example_loading_def)
  show ?thesis using h HeatmapStats_hidden_empty [OF h] by blast
qed

text \<open>
  C2. In a visible state the second rendered child of the container is the summary
  line, and its text is \<^verbatim>\<open>Found: N elements / M clicks!\<close> with N the length of
  \<^verbatim>\<open>countedElements\<close> and M the \<^verbatim>\<open>clickCount\<close>, both in decimal.
\<close>

theorem summary_line_text:
  assumes "heatmapEnabled s" "\<not> heatmapLoading s"
  shows "\<exists>v. HeatmapStats s = Inr v \<and> length (rendered_children v) = 3
           \<and> textContent (rendered_children v ! 1) =
               ''Found: '' @ decimal_of_nat (length (countedElements s)) @ '' elements / ''
                 @ decimal_of_int (clickCount s) @ '' clicks!''"
proof -
  obtain items where "renderItems (renderItem s) (countedElements s) 0 = Inr items"
    using renderItems_renderItem by blast
  then show ?thesis
    using assms by (simp add: HeatmapStats_def rendered_children_def decimal_of_int_nat)
qed

theorem summary_line_text_witness:
  "heatmapEnabled example_visible \<and> \<not> heatmapLoading example_visible
   \<and> (\<exists>v. HeatmapStats example_visible = Inr v \<and> length (rendered_children v) = 3
           \<and> textContent (rendered_children v ! 1) = ''Found: 3 elements / 16 clicks!'')"
proof -
  have n: "decimal_of_nat (length (countedElements example_visible)) = ''3''"
    by (simp add: example_visible_rows decimal_of_nat_digit digit_char_def)
  have m: "decimal_of_int (clickCount example_visible) = ''16''"
    by (simp add: example_visible_def decimal_of_int_def decimal_of_nat.simps [of 16]
        decimal_of_nat_digit digit_char_def)
  show ?thesis
    using summary_line_text [OF example_visible_rows(1,2)] example_visible_rows(1,2)
    by (simp add: n m)
qed




text \<open>
  C4. In a visible state every row has a rank label whose width is
  \<open>\<lfloor>log\<^sub>1\<^sub>0 N + 1\<rfloor> * 12 + 6\<close>, with N the length of \<^verbatim>\<open>countedElements\<close>: the same
  width in every row.
\<close>

theorem rank_label_width:
  assumes "heatmapEnabled s" "\<not> heatmapLoading s" "row \<in> set (rendered_rows s)"
  shows "\<exists>l. rank_label row = Some l
           \<and> width_of l =
               Some (CssNum (Finite (of_int
                 (\<lfloor>log 10 (real (length (countedElements s))) + 1\<rfloor> * 12 + 6))))"
proof -
  obtain k where k: "k < length (countedElements s)"
      "renderItem s (countedElements s ! k) k = Inr row"
    using rendered_row_cases [OF assms(3)] by blast
  have "0 < length (countedElements s)" using k(1) by auto
  then have "labelWidth (length (countedElements s)) =
      Finite (of_int (\<lfloor>log 10 (real (length (countedElements s))) + 1\<rfloor> * 12 + 6))"
    by (rule labelWidth_positive_length)
  then show ?thesis
    using renderItem_label [OF k(2)] by auto
qed

theorem rank_label_width_witness:
  "heatmapEnabled example_visible \<and> \<not> heatmapLoading example_visible
   \<and> rendered_rows example_visible ! 2 \<in> set (rendered_rows example_visible)
   \<and> (\<exists>l. rank_label (rendered_rows example_visible ! 2) = Some l
           \<and> width_of l = Some (CssNum (Finite 18)))"
proof -
  have "length (rendered_rows example_visible) = 3"
    using rendered_rows_visible [OF example_visible_rows(1,2)] example_visible_rows(3) by simp
  then have m: "rendered_rows example_visible ! 2 \<in> set (rendered_rows example_visible)"
    by simp
  have "floorlog 10 3 = 1" by code_simp
  then have "\<lfloor>log 10 (real (length (countedElements example_visible))) + 1\<rfloor> = 1"
    using floor_log10_digits [of 3] by (simp add: example_visible_rows)
  then show ?thesis
    using rank_label_width [OF example_visible_rows(1,2) m] example_visible_rows(1,2) m
    by simp
qed

text \<open>
  C5. In a visible state there is one row per element of \<^verbatim>\<open>countedElements\<close>, in the
  order of the sequence: the row at position \<open>k\<close> (from 0) is the rendering of the
  element at position \<open>k\<close>, and its rank label shows the number \<open>k + 1\<close>, followed by
  a full stop.
\<close>

theorem one_row_per_element:
  assumes "heatmapEnabled s" "\<not> heatmapLoading s"
  shows "length (rendered_rows s) = length (countedElements s)
     \<and> (\<forall>k<length (countedElements s).
           renderItem s (countedElements s ! k) k = Inr (rendered_rows s ! k)
         \<and> (\<exists>l. rank_label (rendered_rows s ! k) = Some l
                \<and> children_of l = [Num (int (k + 1)), Text ''.'']
                \<and> textContent l = decimal_of_nat (k + 1) @ ''.''))"
proof -
  have len: "length (rendered_rows s) = length (countedElements s)"
    using rendered_rows_visible [OF assms] by blast
  have "renderItem s (countedElements s ! k) k = Inr (rendered_rows s ! k)
         \<and> (\<exists>l. rank_label (rendered_rows s ! k) = Some l
                \<and> children_of l = [Num (int (k + 1)), Text ''.'']
                \<and> textContent l = decimal_of_nat (k + 1) @ ''.'')"
    if "k < length (countedElements s)" for k
  proof -
    have r: "renderItem s (countedElements s ! k) k = Inr (rendered_rows s ! k)"
      using assms that by (rule rendered_row_nth)
    show ?thesis using r renderItem_label [OF r] by blast
  qed
  then show ?thesis using len by blast
qed

theorem one_row_per_element_witness:
  "heatmapEnabled example_visible \<and> \<not> heatmapLoading example_visible
   \<and> length (rendered_rows example_visible) = 3
   \<and> (\<exists>l. rank_label (rendered_rows example_visible ! 2) = Some l
          \<and> children_of l = [Num 3, Text ''.''] \<and> textContent l = ''3.'')"
proof -
  have d: "decimal_of_nat 3 = ''3''"
    by (simp add: decimal_of_nat_digit digit_char_def)
  have k: "2 < length (countedElements example_visible)"
    by (simp add: example_visible_rows(3))
  have len: "length (rendered_rows example_visible) = length (countedElements example_visible)"
    and rows: "\<forall>k<length (countedElements example_visible).
           renderItem example_visible (countedElements example_visible ! k) k
             = Inr (rendered_rows example_visible ! k)
         \<and> (\<exists>l. rank_label (rendered_rows example_visible ! k) = Some l
                \<and> children_of l = [Num (int (k + 1)), Text ''.'']
                \<and> textContent l = decimal_of_nat (k + 1) @ ''.'')"
    using one_row_per_element [OF example_visible_rows(1,2)] by blast+
  from rows k have "\<exists>l. rank_label (rendered_rows example_visible ! 2) = Some l
                \<and> children_of l = [Num (int (2 + 1)), Text ''.'']
                \<and> textContent l = decimal_of_nat (2 + 1) @ ''.''"
    by blast
  then have "\<exists>l. rank_label (rendered_rows example_visible ! 2) = Some l
          \<and> children_of l = [Num 3, Text ''.''] \<and> textContent l = ''3.''"
    using d by simp
  then show ?thesis using example_visible_rows len by simp
qed

text \<open>
  C6. On the row of the element at position \<open>k\<close>: a click dispatches
  \<^verbatim>\<open>setSelectedElement(element)\<close> once, mouse-enter dispatches
  \<^verbatim>\<open>setHighlightElement(element)\<close>, mouse-leave dispatches
  \<^verbatim>\<open>setHighlightElement(null)\<close>, and every other pointer event dispatches nothing.
\<close>

theorem row_pointer_events:
  assumes "heatmapEnabled s" "\<not> heatmapLoading s" "k < length (countedElements s)"
  shows "fire (rendered_rows s ! k) click = [setSelectedElement (element (countedElements s ! k))]
     \<and> fire (rendered_rows s ! k) mouseenter
         = [setHighlightElement (Some (element (countedElements s ! k)))]
     \<and> fire (rendered_rows s ! k) mouseleave = [setHighlightElement None]
     \<and> (\<forall>ev. ev \<notin> {click, mouseenter, mouseleave} \<longrightarrow> fire (rendered_rows s ! k) ev = [])"
proof -
  have r: "renderItem s (countedElements s ! k) k = Inr (rendered_rows s ! k)"
    using assms by (rule rendered_row_nth)
  show ?thesis using renderItem_fire [OF r] by simp
qed

theorem row_pointer_events_witness:
  "heatmapEnabled example_visible \<and> \<not> heatmapLoading example_visible
   \<and> 1 < length (countedElements example_visible)
   \<and> fire (rendered_rows example_visible ! 1) click = [setSelectedElement 8]
   \<and> fire (rendered_rows example_visible ! 1) mouseenter = [setHighlightElement (Some 8)]
   \<and> fire (rendered_rows example_visible ! 1) mouseleave = [setHighlightElement None]
   \<and> fire (rendered_rows example_visible ! 1) mousemove = []"
proof -
  have k: "1 < length (countedElements example_visible)"
    by (simp add: example_visible_rows)
  have e: "element (countedElements example_visible ! 1) = 8"
    by (simp add: example_visible_def example_elements_def)
  show ?thesis
    using row_pointer_events [OF example_visible_rows(1,2) k] example_visible_rows(1,2) k e
    by simp
qed

text \<open>
  C7. Rendering never raises: for every state the component returns a tree, whose rows
  are the rendered rows. In a visible state there is a row for every counted element,
  whatever its fields, and the missing fields give the fallbacks: the row of an element
  with no action step, or with an action step that has neither text nor tag name,
  shows \<^verbatim>\<open>Element\<close>; the row of an element with no text and a tag name shows the
  tag name as code.
\<close>

theorem HeatmapStats_never_raises:
  "(\<exists>v. HeatmapStats s = Inr v \<and> rows_of v = rendered_rows s)
   \<and> (heatmapEnabled s \<and> \<not> heatmapLoading s \<longrightarrow>
        length (rendered_rows s) = length (countedElements s)
        \<and> (\<forall>k<length (countedElements s).
              (actionStep (countedElements s ! k) = None \<longrightarrow>
                 row_content (rendered_rows s ! k) = Some [Elem ''em'' [] [Text ''Element'']])
            \<and> (\<forall>a. actionStep (countedElements s ! k) = Some a
                     \<and> text a = None \<and> tag_name a = None \<longrightarrow>
                 row_content (rendered_rows s ! k) = Some [Elem ''em'' [] [Text ''Element'']])
            \<and> (\<forall>a c cs. actionStep (countedElements s ! k) = Some a
                     \<and> text a = None \<and> tag_name a = Some (c # cs) \<longrightarrow>
                 row_content (rendered_rows s ! k) =
                   Some [Elem ''code'' [] [Text ''<'', Text (c # cs), Text ''>'']])))"
proof -
  have total: "\<exists>v. HeatmapStats s = Inr v \<and> rows_of v = rendered_rows s"
  proof -
    obtain items where "renderItems (renderItem s) (countedElements s) 0 = Inr items"
      using renderItems_renderItem by blast
    then have "\<exists>v. HeatmapStats s = Inr v" by (simp add: HeatmapStats_def)
    then show ?thesis by (auto simp: rendered_rows_def)
  qed
  have rows: "length (rendered_rows s) = length (countedElements s)
        \<and> (\<forall>k<length (countedElements s).
              (actionStep (countedElements s ! k) = None \<longrightarrow>
                 row_content (rendered_rows s ! k) = Some [Elem ''em'' [] [Text ''Element'']])
            \<and> (\<forall>a. actionStep (countedElements s ! k) = Some a
                     \<and> text a = None \<and> tag_name a = None \<longrightarrow>
                 row_content (rendered_rows s ! k) = Some [Elem ''em'' [] [Text ''Element'']])
            \<and> (\<forall>a c cs. actionStep (countedElements s ! k) = Some a
                     \<and> text a = None \<and> tag_name a = Some (c # cs) \<longrightarrow>
                 row_content (rendered_rows s ! k) =
                   Some [Elem ''code'' [] [Text ''<'', Text (c # cs), Text ''>'']]))"
    if vis: "heatmapEnabled s" "\<not> heatmapLoading s"
  proof -
    have len: "length (rendered_rows s) = length (countedElements s)"
      using rendered_rows_visible [OF vis] by blast
    have "(actionStep (countedElements s ! k) = None \<longrightarrow>
                 row_content (rendered_rows s ! k) = Some [Elem ''em'' [] [Text ''Element'']])
            \<and> (\<forall>a. actionStep (countedElements s ! k) = Some a
                     \<and> text a = None \<and> tag_name a = None \<longrightarrow>
                 row_content (rendered_rows s ! k) = Some [Elem ''em'' [] [Text ''Element'']])
            \<and> (\<forall>a c cs. actionStep (countedElements s ! k) = Some a
                     \<and> text a = None \<and> tag_name a = Some (c # cs) \<longrightarrow>
                 row_content (rendered_rows s ! k) =
                   Some [Elem ''code'' [] [Text ''<'', Text (c # cs), Text ''>'']])"
      if k: "k < length (countedElements s)" for k
    proof -
      have "renderItem s (countedElements s ! k) k = Inr (rendered_rows s ! k)"
        using vis k by (rule rendered_row_nth)
      then have "row_content (rendered_rows s ! k) =
         Some (case chain_text (actionStep (countedElements s ! k)) of
             Some (c # cs) \<Rightarrow> [Text (c # cs)]
           | _ \<Rightarrow>
             (case chain_tag_name (actionStep (countedElements s ! k)) of
                Some (d # ds) \<Rightarrow> [Elem ''code'' [] [Text ''<'', Text (d # ds), Text ''>'']]
              | _ \<Rightarrow> [Elem ''em'' [] [Text ''Element'']]))"
        by (rule renderItem_content)
      then show ?thesis
        by (auto simp: chain_text_def chain_tag_name_def)
    qed
    then show ?thesis using len by blast
  qed
  show ?thesis using total rows by blast
qed

theorem HeatmapStats_never_raises_witness:
  "heatmapEnabled example_fallbacks \<and> \<not> heatmapLoading example_fallbacks
   \<and> length (countedElements example_fallbacks) = 3
   \<and> (\<exists>v. HeatmapStats example_fallbacks = Inr v \<and> rows_of v = rendered_rows example_fallbacks)
   \<and> length (rendered_rows example_fallbacks) = 3
   \<and> actionStep (countedElements example_fallbacks ! 0) = None
   \<and> row_content (rendered_rows example_fallbacks ! 0) = Some [Elem ''em'' [] [Text ''Element'']]
   \<and> actionStep (countedElements example_fallbacks ! 1) = Some \<lparr>text = None, tag_name = None\<rparr>
   \<and> row_content (rendered_rows example_fallbacks ! 1) = Some [Elem ''em'' [] [Text ''Element'']]
   \<and> actionStep (countedElements example_fallbacks ! 2)
        = Some \<lparr>text = None, tag_name = Some ''button''\<rparr>
   \<and> row_content (rendered_rows example_fallbacks ! 2) =
        Some [Elem ''code'' [] [Text ''<'', Text ''button'', Text ''>'']]"
proof -
  have vis: "heatmapEnabled example_fallbacks \<and> \<not> heatmapLoading example_fallbacks"
    and n: "length (countedElements example_fallbacks) = 3"
    and a0: "actionStep (countedElements example_fallbacks ! 0) = None"
    and a1: "actionStep (countedElements example_fallbacks ! 1)
               = Some \<lparr>text = None, tag_name = None\<rparr>"
    and a2: "actionStep (countedElements example_fallbacks ! 2)
               = Some \<lparr>text = None, tag_name = Some ''button''\<rparr>"
    by (simp_all add: example_fallbacks_def)
  have k: "0 < length (countedElements example_fallbacks)"
    "1 < length (countedElements example_fallbacks)"
    "2 < length (countedElements example_fallbacks)"
    by (simp_all add: n)
  note inst = HeatmapStats_never_raises [of example_fallbacks]
  have total: "\<exists>v. HeatmapStats example_fallbacks = Inr v
      \<and> rows_of v = rendered_rows example_fallbacks"
    using inst by blast
  have len: "length (rendered_rows example_fallbacks) = 3"
    using inst vis n by simp
  have r0: "row_content (rendered_rows example_fallbacks ! 0)
      = Some [Elem ''em'' [] [Text ''Element'']]"
    using inst vis k(1) a0 by blast
  have r1: "row_content (rendered_rows example_fallbacks ! 1)
      = Some [Elem ''em'' [] [Text ''Element'']]"
    using inst vis k(2) a1 by fastforce
  have r2: "row_content (rendered_rows example_fallbacks ! 2)
      = Some [Elem ''code'' [] [Text ''<'', Text ''button'', Text ''>'']]"
    using inst vis k(3) a2 by fastforce
  show ?thesis using vis n total len a0 r0 a1 r1 a2 r2 by blast
qed

text \<open>
  C8. In a visible state the container has three rendered children. The first is the
  \<^verbatim>\<open>div\<close> that holds the \<^verbatim>\<open>DateFilter\<close> and nothing else, with default value
  \<^verbatim>\<open>Last 7 days\<close>, \<^verbatim>\<open>updatePath\<close> false and \<^verbatim>\<open>getShadowRootPopupContainer\<close> as
  the popup container; the summary line and the list come after it.
\<close>

theorem date_filter_first:
  assumes "heatmapEnabled s" "\<not> heatmapLoading s"
  shows "\<exists>v st summary lst. HeatmapStats s = Inr v
     \<and> rendered_children v =
         [Elem ''div'' st
            [DateFilter
               \<lparr>defaultValue = ''Last 7 days'', updatePath = False,
                getPopupContainer = Imported ''getShadowRootPopupContainer''\<rparr>],
          summary, lst]
     \<and> take 7 (textContent summary) = ''Found: '' \<and> is_AntList lst
     \<and> rows_of lst = rendered_rows s"
proof -
  obtain items where it: "renderItems (renderItem s) (countedElements s) 0 = Inr items"
    using renderItems_renderItem by blast
  show ?thesis
    using assms it
    by (simp add: HeatmapStats_def rendered_children_def rendered_rows_def rows_of_def)
qed

theorem date_filter_first_witness:
  "heatmapEnabled example_visible \<and> \<not> heatmapLoading example_visible
   \<and> (\<exists>v st summary lst. HeatmapStats example_visible = Inr v
     \<and> rendered_children v =
         [Elem ''div'' st
            [DateFilter
               \<lparr>defaultValue = ''Last 7 days'', updatePath = False,
                getPopupContainer = Imported ''getShadowRootPopupContainer''\<rparr>],
          summary, lst]
     \<and> take 7 (textContent summary) = ''Found: '' \<and> is_AntList lst
     \<and> rows_of lst = rendered_rows example_visible)"
  using date_filter_first [OF example_visible_rows(1,2)] example_visible_rows(1,2) by blast

text \<open>
  C10. The component always returns a tree, and in it a width is set only on the rank
  label of a row. Such a row exists only when \<^verbatim>\<open>countedElements\<close> is not empty, so
  the width is computed from a length of at least 1 and is a finite positive number.
  With an empty \<^verbatim>\<open>countedElements\<close> the tree has no row and no width.
\<close>

theorem label_width_only_in_rows:
  "\<exists>v. HeatmapStats s = Inr v
     \<and> (\<forall>n \<in> set (nodes v). width_of n \<noteq> None \<longrightarrow>
           (\<exists>row \<in> set (rows_of v). rank_label row = Some n)
           \<and> 1 \<le> length (countedElements s)
           \<and> (\<exists>w. width_of n = Some (CssNum (Finite w)) \<and> 0 < w))
     \<and> (countedElements s = [] \<longrightarrow>
           rows_of v = [] \<and> (\<forall>n \<in> set (nodes v). width_of n = None))"
proof (cases "heatmapEnabled s \<and> \<not> heatmapLoading s")
  case False
  then have "HeatmapStats s = Inr (Elem ''div'' [] [Null])"
    by (auto simp: HeatmapStats_def)
  then show ?thesis by (simp add: width_of_def rows_of_def)
next
  case True
  obtain items where it: "renderItems (renderItem s) (countedElements s) 0 = Inr items"
     "length items = length (countedElements s)"
     "\<forall>k<length (countedElements s). renderItem s (countedElements s ! k) k = Inr (items ! k)"
    using renderItems_renderItem by blast
  obtain v where v: "HeatmapStats s = Inr v"
    using True it(1) by (simp add: HeatmapStats_def)
  have rows: "rows_of v = rendered_rows s" using v by (simp add: rendered_rows_def)
  have rs: "rendered_rows s = items"
    using rendered_rows_visible [of s] True it(2,3)
    by (auto intro!: nth_equalityI)
  have main: "(\<exists>row \<in> set (rows_of v). rank_label row = Some n)
           \<and> 1 \<le> length (countedElements s)
           \<and> (\<exists>w. width_of n = Some (CssNum (Finite w)) \<and> 0 < w)"
    if n: "n \<in> set (nodes v)" "width_of n \<noteq> None" for n
  proof -
    obtain r where r: "r \<in> set items" "n \<in> set (nodes r)"
      using width_nodes_in_items [OF v _ _ it(1) n] True by blast
    then obtain k where k: "k < length (countedElements s)" "items ! k = r"
      using it(2) by (auto simp: in_set_conv_nth)
    then have ri: "renderItem s (countedElements s ! k) k = Inr r" using it(3) by auto
    have lab: "rank_label r = Some n" using ri r(2) n(2) by (rule renderItem_width_nodes)
    have pos: "0 < length (countedElements s)" using k(1) by auto
    then have one: "1 \<le> length (countedElements s)" by linarith
    obtain w where w: "labelWidth (length (countedElements s)) = Finite w" "0 < w"
      using labelWidth_finite_positive [OF pos] by blast
    have "width_of n = Some (CssNum (Finite w))"
      using renderItem_label [OF ri] lab w(1) by auto
    then have wd: "\<exists>w. width_of n = Some (CssNum (Finite w)) \<and> 0 < w"
      using w(2) by blast
    have "r \<in> set (rows_of v)" using r(1) rows rs by simp
    then have "\<exists>row \<in> set (rows_of v). rank_label row = Some n"
      using lab by blast
    then show ?thesis using one wd by blast
  qed
  have empty: "rows_of v = [] \<and> (\<forall>n \<in> set (nodes v). width_of n = None)"
    if "countedElements s = []"
  proof -
    have "items = []" using it(2) that by simp
    then show ?thesis
      using width_nodes_in_items [OF v _ _ it(1)] True rows rs by fastforce
  qed
  show ?thesis using v main empty by blast
qed

theorem label_width_only_in_rows_witness:
  "(\<exists>v n. HeatmapStats example_visible = Inr v \<and> n \<in> set (nodes v)
       \<and> width_of n = Some (CssNum (Finite 18))
       \<and> (\<exists>row \<in> set (rows_of v). rank_label row = Some n)
       \<and> 1 \<le> length (countedElements example_visible))
   \<and> countedElements example_no_elements = []
   \<and> (\<exists>v. HeatmapStats example_no_elements = Inr v \<and> rows_of v = []
         \<and> (\<forall>n \<in> set (nodes v). width_of n = None))"
proof -
  have e: "countedElements example_no_elements = []"
    by (simp add: example_no_elements_def)
  have empty: "\<exists>v. HeatmapStats example_no_elements = Inr v \<and> rows_of v = []
         \<and> (\<forall>n \<in> set (nodes v). width_of n = None)"
    using label_width_only_in_rows [of example_no_elements] e by blast
  obtain v where v: "HeatmapStats example_visible = Inr v"
    and w: "\<forall>n \<in> set (nodes v). width_of n \<noteq> None \<longrightarrow>
           (\<exists>row \<in> set (rows_of v). rank_label row = Some n)
           \<and> 1 \<le> length (countedElements example_visible)
           \<and> (\<exists>w. width_of n = Some (CssNum (Finite w)) \<and> 0 < w)"
    using label_width_only_in_rows [of example_visible] by blast
  have f: "floorlog 10 3 = 1" by code_simp
  have "labelWidth 3 = Finite 18"
    by (simp add: labelWidth_code f)
  then have lw: "labelWidth (Suc (Suc (Suc 0))) = Finite 18"
    by (simp add: numeral_3_eq_3)
  define n :: "nat vnode" where
    "n = Elem ''span''
           [(''display'', CssStr ''inline-block''), (''width'', CssNum (Finite 18)),
            (''textAlign'', CssStr ''right''), (''marginRight'', CssNum (Finite 4))]
           [Num 1, Text ''.'']"
  have "HeatmapStats example_visible = Inr v \<Longrightarrow> n \<in> set (nodes v)"
    by (auto simp: n_def example_visible_def example_elements_def HeatmapStats_def
        renderItem_def rowContent_Inr chain_text_def chain_tag_name_def truthy_def
        string_child_def lw)
  then have mem: "n \<in> set (nodes v)" using v by simp
  have wn: "width_of n = Some (CssNum (Finite 18))"
    by (simp add: n_def width_of_def)
  then have "(\<exists>row \<in> set (rows_of v). rank_label row = Some n)
           \<and> 1 \<le> length (countedElements example_visible)"
    using w mem by auto
  then show ?thesis using v mem wn e empty by blast
qed

end
